theory Spec2Isabelle
  imports Complex_Main "HOL-Library.AList"
begin

section \<open>Text primitives\<close>

text \<open>
  Python \<open>str\<close> values are modelled as \<open>string\<close>: a list of characters whose code
  points lie below 256.  On that range the character classes of the \<open>re\<close> module and of
  the \<open>str\<close> methods used by the importer are the ones below: \<open>\d\<close> is the ASCII
  digits, \<open>\s\<close> and \<open>str.isspace\<close> agree on twelve code points.
\<close>

definition is_digit :: "char \<Rightarrow> bool" where
  "is_digit c = (48 \<le> (of_char c :: nat) \<and> (of_char c :: nat) \<le> 57)"

definition is_space :: "char \<Rightarrow> bool" where
  "is_space c =
     ((of_char c :: nat) \<in> set [9, 10, 11, 12, 13, 28, 29, 30, 31, 32, 133, 160])"

text \<open>
  \<open>str.lower\<close> changes the twenty-six ASCII capitals and the thirty capitals of the
  Latin-1 block, each to the code point 32 above it.
\<close>

definition upper_chars :: string where
  "upper_chars = ''ABCDEFGHIJKLMNOPQRSTUVWXYZ'' @
     [CHR 0xC0, CHR 0xC1, CHR 0xC2, CHR 0xC3, CHR 0xC4, CHR 0xC5, CHR 0xC6, CHR 0xC7,
      CHR 0xC8, CHR 0xC9, CHR 0xCA, CHR 0xCB, CHR 0xCC, CHR 0xCD, CHR 0xCE, CHR 0xCF,
      CHR 0xD0, CHR 0xD1, CHR 0xD2, CHR 0xD3, CHR 0xD4, CHR 0xD5, CHR 0xD6, CHR 0xD8,
      CHR 0xD9, CHR 0xDA, CHR 0xDB, CHR 0xDC, CHR 0xDD, CHR 0xDE]"

definition lower_chars :: string where
  "lower_chars = ''abcdefghijklmnopqrstuvwxyz'' @
     [CHR 0xE0, CHR 0xE1, CHR 0xE2, CHR 0xE3, CHR 0xE4, CHR 0xE5, CHR 0xE6, CHR 0xE7,
      CHR 0xE8, CHR 0xE9, CHR 0xEA, CHR 0xEB, CHR 0xEC, CHR 0xED, CHR 0xEE, CHR 0xEF,
      CHR 0xF0, CHR 0xF1, CHR 0xF2, CHR 0xF3, CHR 0xF4, CHR 0xF5, CHR 0xF6, CHR 0xF8,
      CHR 0xF9, CHR 0xFA, CHR 0xFB, CHR 0xFC, CHR 0xFD, CHR 0xFE]"

definition lower_char :: "char \<Rightarrow> char" where
  "lower_char c = (case map_of (zip upper_chars lower_chars) c of None \<Rightarrow> c | Some l \<Rightarrow> l)"

definition lower :: "string \<Rightarrow> string" where
  "lower s = map lower_char s"

definition strip :: "string \<Rightarrow> string" where
  "strip s = rev (dropWhile is_space (rev (dropWhile is_space s)))"

fun startswith :: "string \<Rightarrow> string \<Rightarrow> bool" where
  "startswith s [] = True"
| "startswith [] (p # ps) = False"
| "startswith (c # cs) (p # ps) = (c = p \<and> startswith cs ps)"

definition endswith :: "string \<Rightarrow> string \<Rightarrow> bool" where
  "endswith s suffix = startswith (rev s) (rev suffix)"

text \<open>
  \<open>s.replace(old, new)\<close> for a non-empty \<open>old\<close>: the occurrences are found from the
  left and do not overlap.  (The importer only replaces non-empty fragments; for an
  empty \<open>old\<close> the model returns \<open>s\<close>.)
\<close>

function replace :: "string \<Rightarrow> string \<Rightarrow> string \<Rightarrow> string" where
  "replace old new [] = []"
| "replace old new (c # cs) =
     (if old \<noteq> [] \<and> startswith (c # cs) old
      then new @ replace old new (drop (length old - 1) cs)
      else c # replace old new cs)"
  by pat_completeness auto
termination
  by (relation "measure (\<lambda>(old, new, s). length s)") auto

text \<open>Python slicing \<open>s[a:b]\<close> for \<open>0 \<le> a\<close>, \<open>0 \<le> b\<close>.\<close>

definition slice :: "string \<Rightarrow> nat \<Rightarrow> nat \<Rightarrow> string" where
  "slice s a b = take (b - a) (drop a s)"

section \<open>Regular expressions\<close>

text \<open>
  The two patterns of the importer use literals, the classes \<open>\d\<close>, \<open>\s\<close> and
  \<open>[-+]\<close>, concatenation, alternation, \<open>?\<close>, bounded repetition and \<open>+\<close> on a class.
  \<open>rmatch r s\<close> lists the remainders of \<open>s\<close> after every way \<open>r\<close> can match a prefix
  of \<open>s\<close>, in the order in which a backtracking matcher tries them (greedy first), so
  its head is the match that \<open>re\<close> reports.
\<close>

datatype cls = Digit | Space | OneOf string

fun in_cls :: "cls \<Rightarrow> char \<Rightarrow> bool" where
  "in_cls Digit c = is_digit c"
| "in_cls Space c = is_space c"
| "in_cls (OneOf cs) c = (c \<in> set cs)"

datatype re = Eps | Lit char | Cls cls | Cat re re | Alt re re | Opt re | Plus cls

fun plus_rests :: "cls \<Rightarrow> string \<Rightarrow> string list" where
  "plus_rests k [] = []"
| "plus_rests k (c # cs) = (if in_cls k c then plus_rests k cs @ [cs] else [])"

fun rmatch :: "re \<Rightarrow> string \<Rightarrow> string list" where
  "rmatch Eps s = [s]"
| "rmatch (Lit c) s = (case s of [] \<Rightarrow> [] | x # xs \<Rightarrow> if x = c then [xs] else [])"
| "rmatch (Cls k) s = (case s of [] \<Rightarrow> [] | x # xs \<Rightarrow> if in_cls k x then [xs] else [])"
| "rmatch (Cat a b) s = concat (map (rmatch b) (rmatch a s))"
| "rmatch (Alt a b) s = rmatch a s @ rmatch b s"
| "rmatch (Opt a) s = rmatch a s @ [s]"
| "rmatch (Plus k) s = plus_rests k s"

fun cats :: "re list \<Rightarrow> re" where
  "cats [] = Eps"
| "cats [r] = r"
| "cats (r # rs) = Cat r (cats rs)"

definition lits :: "string \<Rightarrow> re" where
  "lits s = cats (map Lit s)"

text \<open>\<open>pattern.match\<close> at the start of \<open>s\<close>: the length of the reported match.\<close>

definition re_match :: "re \<Rightarrow> string \<Rightarrow> nat option" where
  "re_match r s = (case rmatch r s of [] \<Rightarrow> None | rest # _ \<Rightarrow> Some (length s - length rest))"

text \<open>\<open>pattern.search(s)\<close>: the text \<open>group(0)\<close> of the leftmost match, if any.\<close>

fun re_search :: "re \<Rightarrow> string \<Rightarrow> string option" where
  "re_search r [] = (case re_match r [] of None \<Rightarrow> None | Some n \<Rightarrow> Some [])"
| "re_search r (c # cs) =
     (case re_match r (c # cs) of
        Some n \<Rightarrow> Some (take n (c # cs))
      | None \<Rightarrow> re_search r cs)"

text \<open>
  \<open>pattern.finditer(s)\<close>: the \<open>(start, end)\<close> offsets of the non-overlapping matches,
  scanning from the left; \<open>pos\<close> is the offset of \<open>s\<close> in the whole text.  After an
  empty match the scan moves on by one character.
\<close>

function finditer :: "re \<Rightarrow> nat \<Rightarrow> string \<Rightarrow> (nat \<times> nat) list" where
  "finditer r pos s =
     (case re_match r s of
        Some n \<Rightarrow>
          (pos, pos + n) #
          (if s = [] then [] else finditer r (pos + max 1 n) (drop (max 1 n) s))
      | None \<Rightarrow>
          (case s of [] \<Rightarrow> [] | _ # t \<Rightarrow> finditer r (Suc pos) t))"
  by pat_completeness auto
termination
  by (relation "measure (\<lambda>(r, pos, s). length s)") auto

definition d12 :: re where
  "d12 = Cat (Cls Digit) (Opt (Cls Digit))"

definition d2 :: re where
  "d2 = Cat (Cls Digit) (Cls Digit)"

definition d4 :: re where
  "d4 = Cat d2 d2"

definition DT_RE :: re where
  "DT_RE = cats [d12, Lit CHR ''/'', d12, Lit CHR ''/'', d4, Plus Space,
                 d12, Lit CHR '':'', d2, Lit CHR '':'', d2, Plus Space,
                 Alt (lits ''AM'') (lits ''PM'')]"

definition NUM_RE :: re where
  "NUM_RE = cats [Opt (Cls (OneOf ''-+'')), Plus Digit, Opt (Cat (Lit CHR ''.'') (Plus Digit))]"

section \<open>Values and timestamps\<close>

text \<open>
  A Python float is kept as the exact rational its decimal text denotes, or one of the
  three special values; the rounding of a finite value to the nearest double is not
  modelled.  \<open>float(s)\<close> overflows to an infinity, without raising, once the magnitude
  reaches \<open>2^1024 - 2^970\<close>, the midpoint between the largest double and \<open>2^1024\<close>.
\<close>

datatype pyfloat = Finite rat | PosInf | NegInf | NaN

definition float_overflow :: rat where
  "float_overflow = 2 ^ 1024 - 2 ^ 970"

definition digit_val :: "char \<Rightarrow> nat" where
  "digit_val c = (of_char c :: nat) - 48"

definition int_of_digits :: "string \<Rightarrow> nat" where
  "int_of_digits ds = foldl (\<lambda>a c. 10 * a + digit_val c) 0 ds"

definition decimal_value :: "string \<Rightarrow> rat" where
  "decimal_value s =
     (let ip = takeWhile is_digit s;
          fp = drop (Suc (length ip)) s
      in of_nat (int_of_digits ip) + of_nat (int_of_digits fp) / 10 ^ length fp)"

text \<open>\<open>float(s)\<close> on a text of the form sign, digits, optional fraction.\<close>

definition float_of_text :: "string \<Rightarrow> pyfloat" where
  "float_of_text s =
     (case s of
        [] \<Rightarrow> NaN
      | c # cs \<Rightarrow>
          (let neg = (c = CHR ''-'');
               q = decimal_value (if c = CHR ''-'' \<or> c = CHR ''+'' then cs else s)
           in if float_overflow \<le> q then (if neg then NegInf else PosInf)
              else Finite (if neg then - q else q)))"

datatype tzinfo = HST

record datetime =
  year :: nat
  month :: nat
  day :: nat
  hour :: nat
  minute :: nat
  second :: nat
  tzinfo :: "tzinfo option"

datatype error =
    PandasError string
  | RuntimeError string
  | ColumnsValueError "string list"
  | StrptimeValueError string
  | TzLocalizeError string
  | SinkError string
  | MoveError string

text \<open>
  A timestamp held in a batch: a Python \<open>datetime\<close> (a pandas \<open>Timestamp\<close> is
  one), or pandas' missing value \<open>NaT\<close>.  A Sample is a pair, as in the source.
\<close>

datatype timestamp = NaT | At datetime

type_synonym sample = "timestamp \<times> pyfloat"

section \<open>\<open>datetime.strptime\<close> with the importer's format\<close>

text \<open>
  For the format \<open>%m/%d/%Y %I:%M:%S %p\<close> the standard library compiles the pattern
  \<open>(1[0-2]|0[1-9]|[1-9])/(3[0-1]|[1-2]\d|0[1-9]|[1-9]| [1-9])/(\d\d\d\d)\s+\<close>
  \<open>(1[0-2]|0[1-9]|[1-9]):([0-5]\d|\d):(6[0-1]|[0-5]\d|\d)\s+(am|pm)\<close>, matched without
  regard to case at the start of the text; the whole text must be consumed, and the
  fields must then form a date that exists, with a second below 60.
\<close>

definition d19 :: re where
  "d19 = Cls (OneOf ''123456789'')"

definition re_m :: re where
  "re_m = Alt (Cat (Lit CHR ''1'') (Cls (OneOf ''012''))) (Alt (Cat (Lit CHR ''0'') d19) d19)"

definition re_d :: re where
  "re_d = Alt (Cat (Lit CHR ''3'') (Cls (OneOf ''01'')))
         (Alt (Cat (Cls (OneOf ''12'')) (Cls Digit))
         (Alt (Cat (Lit CHR ''0'') d19)
         (Alt d19 (Cat (Lit CHR '' '') d19))))"

definition re_Y :: re where
  "re_Y = d4"

definition re_I :: re where
  "re_I = re_m"

definition re_M :: re where
  "re_M = Alt (Cat (Cls (OneOf ''012345'')) (Cls Digit)) (Cls Digit)"

definition re_S :: re where
  "re_S = Alt (Cat (Lit CHR ''6'') (Cls (OneOf ''01'')))
         (Alt (Cat (Cls (OneOf ''012345'')) (Cls Digit)) (Cls Digit))"

definition re_p :: re where
  "re_p = Cat (Cls (OneOf ''aApP'')) (Cls (OneOf ''mM''))"

text \<open>The ways a field can match a prefix: the text it captures and the remainder.\<close>

definition caps :: "re \<Rightarrow> string \<Rightarrow> (string \<times> string) list" where
  "caps r s = map (\<lambda>rest. (take (length s - length rest) s, rest)) (rmatch r s)"

definition strptime_fields ::
  "string \<Rightarrow> ((string \<times> string \<times> string \<times> string \<times> string \<times> string \<times> string) \<times> string) list"
where
  "strptime_fields data =
     [((m, d, y, i, mi, sc, p), r13).
        (m, r1) \<leftarrow> caps re_m data, r2 \<leftarrow> rmatch (Lit CHR ''/'') r1,
        (d, r3) \<leftarrow> caps re_d r2, r4 \<leftarrow> rmatch (Lit CHR ''/'') r3,
        (y, r5) \<leftarrow> caps re_Y r4, r6 \<leftarrow> rmatch (Plus Space) r5,
        (i, r7) \<leftarrow> caps re_I r6, r8 \<leftarrow> rmatch (Lit CHR '':'') r7,
        (mi, r9) \<leftarrow> caps re_M r8, r10 \<leftarrow> rmatch (Lit CHR '':'') r9,
        (sc, r11) \<leftarrow> caps re_S r10, r12 \<leftarrow> rmatch (Plus Space) r11,
        (p, r13) \<leftarrow> caps re_p r12]"

definition py_int :: "string \<Rightarrow> nat" where
  "py_int s = int_of_digits (filter is_digit s)"

definition is_leap :: "nat \<Rightarrow> bool" where
  "is_leap y = (y mod 4 = 0 \<and> (y mod 100 \<noteq> 0 \<or> y mod 400 = 0))"

definition days_in_month :: "nat \<Rightarrow> nat \<Rightarrow> nat" where
  "days_in_month y m =
     (if m = 2 then (if is_leap y then 29 else 28)
      else if m \<in> set [4, 6, 9, 11] then 30 else 31)"

definition strptime :: "string \<Rightarrow> error + datetime" where
  "strptime data =
     (case strptime_fields data of
        [] \<Rightarrow> Inl (StrptimeValueError data)
      | ((m, d, y, i, mi, sc, p), rest) # _ \<Rightarrow>
          if rest \<noteq> [] then Inl (StrptimeValueError data)
          else
            (let yr = py_int y; mo = py_int m; dy = py_int d; h = py_int i;
                 hr = (if lower p = ''am'' then (if h = 12 then 0 else h)
                       else (if h = 12 then h else h + 12))
             in if yr < 1 \<or> days_in_month yr mo < dy \<or> 59 < py_int sc
                then Inl (StrptimeValueError data)
                else Inr \<lparr>year = yr, month = mo, day = dy, hour = hr,
                          minute = py_int mi, second = py_int sc, tzinfo = None\<rparr>))"

section \<open>The fallback parser for collapsed content\<close>

definition clean :: "string \<Rightarrow> string" where
  "clean text =
     replace ''Start kWh'' '' ''
       (replace ''StartkWh'' '' ''
         (replace [CHR 0x0A] '' '' (replace [CHR 0x0D] '' '' text)))"

text \<open>
  One turn of the loop over \<open>enumerate(dts)\<close>: \<open>Inr None\<close> is the \<open>continue\<close>,
  \<open>Inl\<close> an exception raised by \<open>strptime\<close>.
\<close>

definition collapsed_row :: "string \<Rightarrow> (nat \<times> nat) list \<Rightarrow> nat \<Rightarrow> error + sample option" where
  "collapsed_row cleaned dts i =
     (let m = dts ! i;
          dt_str = slice cleaned (fst m) (snd m);
          start = snd m;
          end = (if i + 1 < length dts then fst (dts ! (i + 1)) else length cleaned);
          between = strip (slice cleaned start end)
      in case re_search NUM_RE between of
           None \<Rightarrow> Inr None
         | Some nm \<Rightarrow>
             (let kwh = float_of_text nm
              in case strptime dt_str of
                   Inl e \<Rightarrow> Inl e
                 | Inr dt_naive \<Rightarrow> Inr (Some (At (dt_naive\<lparr>tzinfo := Some HST\<rparr>), kwh))))"

fun collapsed_loop ::
  "string \<Rightarrow> (nat \<times> nat) list \<Rightarrow> nat list \<Rightarrow> sample list \<Rightarrow> error + sample list"
where
  "collapsed_loop cleaned dts [] rows = Inr rows"
| "collapsed_loop cleaned dts (i # is) rows =
     (case collapsed_row cleaned dts i of
        Inl e \<Rightarrow> Inl e
      | Inr None \<Rightarrow> collapsed_loop cleaned dts is rows
      | Inr (Some row) \<Rightarrow> collapsed_loop cleaned dts is (rows @ [row]))"

definition parse_collapsed_text :: "string \<Rightarrow> error + sample list" where
  "parse_collapsed_text text =
     (let cleaned = clean text;
          dts = finditer DT_RE 0 cleaned
      in collapsed_loop cleaned dts [0..<length dts] [])"

section \<open>The preferred parser for real CSV\<close>

text \<open>
  pandas is a collaborator of the importer, not part of it: its calls are parameters of
  the model.  A data frame is the list of its columns, each a label with its cells; the
  cell type \<open>'c\<close> is whatever \<open>read_csv\<close> produced.  \<open>read_csv\<close> is given the text of
  the file and the separator; the two conversions say what pandas does with one cell
  (\<open>errors="raise"\<close>: an \<open>Inl\<close> is the exception); \<open>tz_rejects\<close> says which wall-clock
  times the zone database makes ambiguous or non-existent.
\<close>

type_synonym 'c dataframe = "(string \<times> 'c list) list"

record 'c pandas =
  read_csv :: "string \<Rightarrow> char \<Rightarrow> error + 'c dataframe"
  to_datetime_elem :: "'c \<Rightarrow> error + timestamp"
  to_numeric_elem :: "'c \<Rightarrow> error + pyfloat"
  tz_rejects :: "tzinfo \<Rightarrow> datetime \<Rightarrow> bool"

text \<open>An element-wise conversion of a column stops at the first cell that raises.\<close>

fun traverse :: "('a \<Rightarrow> error + 'b) \<Rightarrow> 'a list \<Rightarrow> error + 'b list" where
  "traverse f [] = Inr []"
| "traverse f (x # xs) =
     (case f x of
        Inl e \<Rightarrow> Inl e
      | Inr y \<Rightarrow> (case traverse f xs of Inl e \<Rightarrow> Inl e | Inr ys \<Rightarrow> Inr (y # ys)))"

text \<open>
  \<open>df[label]\<close> is a Series when one column carries the label, and a frame when several
  do; \<open>to_datetime\<close> and \<open>to_numeric\<close> raise on a frame with repeated labels.
\<close>

definition select :: "'c dataframe \<Rightarrow> string \<Rightarrow> 'c list list" where
  "select df label = map snd (filter (\<lambda>col. fst col = label) df)"

definition pd_to_datetime :: "'c pandas \<Rightarrow> 'c list list \<Rightarrow> error + timestamp list" where
  "pd_to_datetime pd sel =
     (case sel of
        [col] \<Rightarrow> traverse (to_datetime_elem pd) col
      | _ \<Rightarrow> Inl (PandasError ''cannot assemble with duplicate keys''))"

definition pd_to_numeric :: "'c pandas \<Rightarrow> 'c list list \<Rightarrow> error + pyfloat list" where
  "pd_to_numeric pd sel =
     (case sel of
        [col] \<Rightarrow> traverse (to_numeric_elem pd) col
      | _ \<Rightarrow> Inl (PandasError ''arg must be a list, tuple, 1-d array, or Series''))"

definition tz_localize_elem :: "'c pandas \<Rightarrow> tzinfo \<Rightarrow> timestamp \<Rightarrow> error + timestamp" where
  "tz_localize_elem pd z t =
     (case t of
        NaT \<Rightarrow> Inr NaT
      | At d \<Rightarrow>
          if tzinfo d \<noteq> None then Inl (TzLocalizeError ''Already tz-aware'')
          else if tz_rejects pd z d then Inl (TzLocalizeError ''ambiguous or nonexistent time'')
          else Inr (At (d\<lparr>tzinfo := Some z\<rparr>)))"

definition tz_localize :: "'c pandas \<Rightarrow> tzinfo \<Rightarrow> timestamp list \<Rightarrow> error + timestamp list" where
  "tz_localize pd z ts = traverse (tz_localize_elem pd z) ts"

definition seps :: "char list" where
  "seps = [CHR '','', CHR 0x09, CHR '';'']"

text \<open>
  The loop over the separators.  The state is the pair of variables \<open>df\<close> and
  \<open>last_err\<close> of the source, with the list of separators read so far; returning without
  the recursive call is the \<open>break\<close>.
\<close>

fun delimiter_loop ::
  "(char \<Rightarrow> error + 'c dataframe) \<Rightarrow> char list \<Rightarrow>
   'c dataframe option \<times> error option \<times> char list \<Rightarrow>
   'c dataframe option \<times> error option \<times> char list"
where
  "delimiter_loop rd [] st = st"
| "delimiter_loop rd (sep # rest) (df, last_err, tried) =
     (case rd sep of
        Inr d \<Rightarrow>
          if 2 \<le> length d then (Some d, last_err, tried @ [sep])
          else delimiter_loop rd rest (Some d, last_err, tried @ [sep])
      | Inl e \<Rightarrow> delimiter_loop rd rest (None, Some e, tried @ [sep]))"

definition normalize_columns :: "'c dataframe \<Rightarrow> 'c dataframe" where
  "normalize_columns df = map (\<lambda>col. (lower (strip (fst col)), snd col)) df"

text \<open>Everything after the column names have been normalised.\<close>

definition table_rows :: "'c pandas \<Rightarrow> 'c dataframe \<Rightarrow> error + sample list" where
  "table_rows pd df =
     (if ''start'' \<notin> set (map fst df) \<or> ''kwh'' \<notin> set (map fst df)
      then Inl (ColumnsValueError (map fst df))
      else
        (case pd_to_datetime pd (select df ''start'') of
           Inl e \<Rightarrow> Inl e
         | Inr naive \<Rightarrow>
             (case tz_localize pd HST naive of
                Inl e \<Rightarrow> Inl e
              | Inr start \<Rightarrow>
                  (case pd_to_numeric pd (select df ''kwh'') of
                     Inl e \<Rightarrow> Inl e
                   | Inr kwh \<Rightarrow> Inr (zip start kwh)))))"

definition parse_start_kwh_csv :: "'c pandas \<Rightarrow> string \<Rightarrow> error + sample list" where
  "parse_start_kwh_csv pd content =
     (case delimiter_loop (read_csv pd content) seps (None, None, []) of
        (None, last_err, tried) \<Rightarrow>
          Inl (case last_err of Some e \<Rightarrow> e | None \<Rightarrow> RuntimeError ''Failed to read CSV.'')
      | (Some df, last_err, tried) \<Rightarrow> table_rows pd (normalize_columns df))"

section \<open>\<open>parse_file\<close>\<close>

text \<open>
  The file is given by its text.  The bare \<open>raise\<close> in the handler re-raises the
  exception of the CSV parser; an exception of the fallback parser itself propagates.
\<close>

definition parse_file :: "'c pandas \<Rightarrow> string \<Rightarrow> error + sample list" where
  "parse_file pd content =
     (case parse_start_kwh_csv pd content of
        Inr rows \<Rightarrow> Inr rows
      | Inl csv_exception \<Rightarrow>
          (case parse_collapsed_text content of
             Inl e \<Rightarrow> Inl e
           | Inr rows \<Rightarrow> if rows = [] then Inl csv_exception else Inr rows))"

section \<open>The write to InfluxDB and the watcher loop\<close>

record point =
  measurement :: string
  point_tags :: "(string \<times> string) list"
  point_fields :: "(string \<times> pyfloat) list"
  point_time :: timestamp

definition MEASUREMENT :: string where
  "MEASUREMENT = ''heco_interval''"

definition TAG_SOURCE :: string where
  "TAG_SOURCE = ''heco''"

definition to_point :: "sample \<Rightarrow> point" where
  "to_point row =
     \<lparr>measurement = MEASUREMENT, point_tags = [(''source'', TAG_SOURCE)],
      point_fields = [(''kwh'', snd row)], point_time = fst row\<rparr>"

datatype entry = File string | Dir

datatype dest = Processed | Failed

datatype logline = Imported nat string | FailedImporting string error

text \<open>
  What the loop meets outside the importer: pandas, the client (\<open>sink_write\<close> is the
  client with its \<open>write\<close> call, \<open>None\<close> when it returns), and \<open>shutil.move\<close>
  (\<open>move_ok\<close>: the move into that directory returns).
\<close>

record 'c env =
  lib :: "'c pandas"
  sink_write :: "point list \<Rightarrow> error option"
  move_ok :: "dest \<Rightarrow> string \<Rightarrow> bool"

text \<open>
  The three directories hold names with their content, in listing order; \<open>processed\<close>
  and \<open>failed\<close> hold regular files only.  \<open>sink_calls\<close> are the batches handed to the
  client, \<open>printed\<close> the lines written to the output.
\<close>

record world =
  incoming :: "(string \<times> entry) list"
  processed :: "(string \<times> string) list"
  failed :: "(string \<times> string) list"
  sink_calls :: "point list list"
  printed :: "logline list"

definition write_to_influx :: "'c env \<Rightarrow> sample list \<Rightarrow> world \<Rightarrow> (error + nat) \<times> world" where
  "write_to_influx ev rows w =
     (if rows = [] then (Inr 0, w)
      else
        (let points = map to_point rows;
             w' = w\<lparr>sink_calls := sink_calls w @ [points]\<rparr>
         in case sink_write ev points of
              Some e \<Rightarrow> (Inl e, w')
            | None \<Rightarrow> (Inr (length rows), w')))"

definition should_process :: "string \<times> entry \<Rightarrow> bool" where
  "should_process p =
     (if snd p = Dir then False
      else (let base = lower (fst p) in endswith base ''.csv'' \<or> endswith base ''.txt''))"

text \<open>\<open>glob.glob(os.path.join(IN_DIR, "*"))\<close>: the entries whose name does not start with a dot.\<close>

definition glob_star :: "(string \<times> entry) list \<Rightarrow> (string \<times> entry) list" where
  "glob_star dir = filter (\<lambda>p. \<not> startswith (fst p) ''.'') dir"

definition move :: "string \<Rightarrow> string \<Rightarrow> dest \<Rightarrow> world \<Rightarrow> world" where
  "move base content d w =
     (case d of
        Processed \<Rightarrow>
          w\<lparr>incoming := AList.delete base (incoming w),
            processed := AList.update base content (processed w)\<rparr>
      | Failed \<Rightarrow>
          w\<lparr>incoming := AList.delete base (incoming w),
            failed := AList.update base content (failed w)\<rparr>)"

text \<open>The \<open>except\<close> branch of the loop body.\<close>

definition on_exception :: "'c env \<Rightarrow> string \<Rightarrow> string \<Rightarrow> error \<Rightarrow> world \<Rightarrow> world" where
  "on_exception ev base content e w =
     (let w' = (if move_ok ev Failed base then move base content Failed w else w)
      in w'\<lparr>printed := printed w' @ [FailedImporting base e]\<rparr>)"

definition process_file :: "'c env \<Rightarrow> string \<Rightarrow> string \<Rightarrow> world \<Rightarrow> world" where
  "process_file ev base content w =
     (case parse_file (lib ev) content of
        Inl e \<Rightarrow> on_exception ev base content e w
      | Inr rows \<Rightarrow>
          (case write_to_influx ev rows w of
             (Inl e, w1) \<Rightarrow> on_exception ev base content e w1
           | (Inr n, w1) \<Rightarrow>
               if move_ok ev Processed base
               then (let w2 = move base content Processed w1
                     in w2\<lparr>printed := printed w2 @ [Imported n base]\<rparr>)
               else on_exception ev base content (MoveError base) w1))"

definition loop_body :: "'c env \<Rightarrow> world \<Rightarrow> string \<times> entry \<Rightarrow> world" where
  "loop_body ev w p =
     (if \<not> should_process p then w
      else (case snd p of File content \<Rightarrow> process_file ev (fst p) content w | Dir \<Rightarrow> w))"

text \<open>One turn of \<open>while True\<close>: the \<open>for\<close> loop over the listing taken at its start.\<close>

definition sweep :: "'c env \<Rightarrow> world \<Rightarrow> world" where
  "sweep ev w = foldl (loop_body ev) w (glob_star (incoming w))"

text \<open>
  \<open>main\<close> never returns; between two sweeps the producer may place files in the
  incoming directory.  A run is a sequence of such events.
\<close>

datatype 'c event = Drop string entry | Sweep "'c env"

fun step :: "world \<Rightarrow> 'c event \<Rightarrow> world" where
  "step w (Drop name e) = w\<lparr>incoming := AList.update name e (incoming w)\<rparr>"
| "step w (Sweep ev) = sweep ev w"

definition run :: "'c event list \<Rightarrow> world \<Rightarrow> world" where
  "run evs w = foldl step w evs"

section \<open>A pandas instance for plain tables\<close>

text \<open>
  For the scenarios a concrete instance of the pandas parameters is needed.  This one
  covers plain tables only: text without quotes or carriage returns, whose first data
  line has as many fields as the header line, with cells that are timestamps in the
  fixed format or plain decimal numbers, and wall-clock times the zone accepts.  Blank
  lines are skipped, a later line with more fields than the header raises, a shorter one
  is filled up with empty cells.  Each cell is kept as its text.  Nothing is claimed
  about input outside that range.
\<close>

fun split_on :: "char \<Rightarrow> string \<Rightarrow> string list" where
  "split_on sep [] = [[]]"
| "split_on sep (c # cs) =
     (if c = sep then [] # split_on sep cs
      else (case split_on sep cs of [] \<Rightarrow> [[c]] | f # fs \<Rightarrow> (c # f) # fs))"

definition plain_read_csv :: "string \<Rightarrow> char \<Rightarrow> error + string dataframe" where
  "plain_read_csv content sep =
     (case filter (\<lambda>l. l \<noteq> []) (split_on (CHR 0x0A) content) of
        [] \<Rightarrow> Inl (PandasError ''No columns to parse from file'')
      | header # body \<Rightarrow>
          (let names = split_on sep header;
               recs = map (split_on sep) body
           in if list_ex (\<lambda>r. length names < length r) recs
              then Inl (PandasError (''Expected fewer fields with separator '' @ [sep]))
              else
                (let full = map (\<lambda>r. r @ replicate (length names - length r) []) recs
                 in Inr (map (\<lambda>j. (names ! j, map (\<lambda>r. r ! j) full)) [0..<length names]))))"

definition plain_to_datetime :: "string \<Rightarrow> error + timestamp" where
  "plain_to_datetime cell = (case strptime cell of Inl e \<Rightarrow> Inl e | Inr d \<Rightarrow> Inr (At d))"

definition plain_to_numeric :: "string \<Rightarrow> error + pyfloat" where
  "plain_to_numeric cell =
     (if [] \<in> set (rmatch NUM_RE cell) then Inr (float_of_text cell)
      else Inl (PandasError ''Unable to parse string''))"

definition plain_pandas :: "string pandas" where
  "plain_pandas =
     \<lparr>read_csv = plain_read_csv, to_datetime_elem = plain_to_datetime,
      to_numeric_elem = plain_to_numeric, tz_rejects = (\<lambda>z d. False)\<rparr>"

section \<open>The texts of the scenarios\<close>

definition scenario_A :: string where
  "scenario_A = ''Start,kWh'' @ [CHR 0x0A] @ ''1/1/2025 12:00:00 AM,0.52'' @ [CHR 0x0A] @
     ''1/1/2025 12:15:00 AM,0.48''"

definition scenario_B :: string where
  "scenario_B = ''StartkWh1/1/2025 12:00:00 AM0.52StartkWh1/1/2025 12:15:00 AM0.48''"

definition semicolon_table :: string where
  "semicolon_table = ''Start;kWh'' @ [CHR 0x0A] @ ''1/1/2025 12:00:00 AM;0.52''"

definition ragged_table :: string where
  "ragged_table = ''a;b'' @ [CHR 0x09] @ ''c'' @ [CHR 0x0A] @ ''1;2'' @ [CHR 0x09] @ ''3'' @ [CHR 0x0A] @
     ''1;2;3'' @ [CHR 0x09] @ ''4'' @ [CHR 0x09] @ ''5''"

section \<open>Environments and worlds of the scenarios\<close>

text \<open>An environment whose moves succeed and whose client always raises.\<close>

definition sink_down_env :: "string env" where
  "sink_down_env =
     \<lparr>lib = plain_pandas, sink_write = (\<lambda>points. Some (SinkError ''unreachable'')),
      move_ok = (\<lambda>d base. True)\<rparr>"

definition empty_world :: world where
  "empty_world = \<lparr>incoming = [], processed = [], failed = [], sink_calls = [], printed = []\<rparr>"

text \<open>An environment whose client accepts every batch and whose moves all go through.\<close>

definition all_fine_env :: "string env" where
  "all_fine_env =
     \<lparr>lib = plain_pandas, sink_write = (\<lambda>points. None), move_ok = (\<lambda>d base. True)\<rparr>"


section \<open>Notions used by the claims about the loop\<close>

text \<open>The parse and the write of a file both return.\<close>

definition parse_and_write_ok :: "'c env \<Rightarrow> string \<Rightarrow> bool" where
  "parse_and_write_ok ev content =
     (case parse_file (lib ev) content of
        Inl e \<Rightarrow> False
      | Inr rows \<Rightarrow> rows = [] \<or> sink_write ev (map to_point rows) = None)"

definition in_incoming :: "world \<Rightarrow> string \<Rightarrow> bool" where
  "in_incoming w n = (n \<in> fst ` set (incoming w))"

definition in_processed :: "world \<Rightarrow> string \<Rightarrow> bool" where
  "in_processed w n = (n \<in> fst ` set (processed w))"

definition in_failed :: "world \<Rightarrow> string \<Rightarrow> bool" where
  "in_failed w n = (n \<in> fst ` set (failed w))"

definition in_any :: "world \<Rightarrow> string \<Rightarrow> bool" where
  "in_any w n = (in_incoming w n \<or> in_processed w n \<or> in_failed w n)"

text \<open>In how many of the three directories a name is present.\<close>

definition location_count :: "world \<Rightarrow> string \<Rightarrow> nat" where
  "location_count w n = length (filter id [in_incoming w n, in_processed w n, in_failed w n])"

text \<open>The names ever placed in the incoming directory: there at the start, or dropped.\<close>

fun dropped :: "'c event list \<Rightarrow> string list" where
  "dropped [] = []"
| "dropped (Drop n e # evs) = n # dropped evs"
| "dropped (Sweep ev # evs) = dropped evs"

definition placed :: "world \<Rightarrow> 'c event list \<Rightarrow> string list" where
  "placed w evs = map fst (incoming w) @ dropped evs"

text \<open>
  No directory lists a name twice and no name is in two directories; and no file is
  dropped under a name that the processed or the failed directory holds at that moment.
\<close>

definition tidy :: "world \<Rightarrow> bool" where
  "tidy w = distinct (map fst (incoming w) @ map fst (processed w) @ map fst (failed w))"

fun fresh_drops :: "world \<Rightarrow> 'c event list \<Rightarrow> bool" where
  "fresh_drops w [] = True"
| "fresh_drops w (ev # evs) =
     ((case ev of Drop n e \<Rightarrow> \<not> in_processed w n \<and> \<not> in_failed w n | Sweep ev' \<Rightarrow> True) \<and>
      fresh_drops (step w ev) evs)"



section \<open>Notions used by the claims about the fallback parser\<close>



text \<open>A text contains a decimal number exactly when it contains a digit.\<close>

definition has_number :: "string \<Rightarrow> bool" where
  "has_number s = list_ex is_digit s"




definition strptime_ok :: "string \<Rightarrow> bool" where
  "strptime_ok s = (case strptime s of Inl e \<Rightarrow> False | Inr d \<Rightarrow> True)"


text \<open>The loop of the fallback parser, read as a pass over the matches with their spans.\<close>

definition span_row :: "string \<times> string \<Rightarrow> error + sample option" where
  "span_row p =
     (case re_search NUM_RE (snd p) of
        None \<Rightarrow> Inr None
      | Some nm \<Rightarrow>
          (case strptime (fst p) of
             Inl e \<Rightarrow> Inl e
           | Inr d \<Rightarrow> Inr (Some (At (d\<lparr>tzinfo := Some HST\<rparr>), float_of_text nm))))"

fun spans_loop :: "(string \<times> string) list \<Rightarrow> sample list \<Rightarrow> error + sample list" where
  "spans_loop [] rows = Inr rows"
| "spans_loop (p # ps) rows =
     (case span_row p of
        Inl e \<Rightarrow> Inl e
      | Inr None \<Rightarrow> spans_loop ps rows
      | Inr (Some row) \<Rightarrow> spans_loop ps (rows @ [row]))"

section \<open>Notions used by the claims about the CSV parser\<close>



section \<open>A text with a number beyond the range of a double\<close>




section \<open>Evaluation on the scenario texts\<close>

declare finditer.simps [simp del]

lemmas re_defs = DT_RE_def NUM_RE_def d12_def d2_def d4_def d19_def lits_def re_match_def caps_def
  re_m_def re_d_def re_Y_def re_I_def re_M_def re_S_def re_p_def

lemmas char_defs = is_digit_def is_space_def lower_def lower_char_def digit_val_def
  upper_chars_def lower_chars_def

lemmas num_defs = float_of_text_def decimal_value_def int_of_digits_def py_int_def
  float_overflow_def is_leap_def days_in_month_def

lemmas strict_defs = parse_start_kwh_csv_def seps_def normalize_columns_def strip_def
  table_rows_def select_def pd_to_datetime_def pd_to_numeric_def tz_localize_def
  tz_localize_elem_def plain_pandas_def plain_to_datetime_def

lemma strptime_midnight:
  "strptime ''1/1/2025 12:00:00 AM'' =
     Inr \<lparr>year = 2025, month = 1, day = 1, hour = 0, minute = 0, second = 0, tzinfo = None\<rparr>"
  by (simp add: strptime_def strptime_fields_def re_defs char_defs num_defs)

lemma strptime_quarter_past:
  "strptime ''1/1/2025 12:15:00 AM'' =
     Inr \<lparr>year = 2025, month = 1, day = 1, hour = 0, minute = 15, second = 0, tzinfo = None\<rparr>"
  by (simp add: strptime_def strptime_fields_def re_defs char_defs num_defs)

lemma numeric_052: "plain_to_numeric ''0.52'' = Inr (Finite (52 / 100))"
  by (simp add: plain_to_numeric_def re_defs char_defs num_defs)

lemma numeric_048: "plain_to_numeric ''0.48'' = Inr (Finite (48 / 100))"
  by (simp add: plain_to_numeric_def re_defs char_defs num_defs)

lemma read_scenario_A:
  "plain_read_csv scenario_A (CHR '','') =
     Inr [(''Start'', [''1/1/2025 12:00:00 AM'', ''1/1/2025 12:15:00 AM'']),
          (''kWh'', [''0.52'', ''0.48''])]"
  by (simp add: plain_read_csv_def scenario_A_def upt_rec)

lemma strict_scenario_A:
  "parse_start_kwh_csv plain_pandas scenario_A =
     Inr [(At \<lparr>year = 2025, month = 1, day = 1, hour = 0, minute = 0, second = 0,
               tzinfo = Some HST\<rparr>, Finite (52 / 100)),
          (At \<lparr>year = 2025, month = 1, day = 1, hour = 0, minute = 15, second = 0,
               tzinfo = Some HST\<rparr>, Finite (48 / 100))]"
  by (simp add: strict_defs char_defs read_scenario_A strptime_midnight strptime_quarter_past
      numeric_052 numeric_048)

lemma clean_scenario_B:
  "clean scenario_B = '' 1/1/2025 12:00:00 AM0.52 1/1/2025 12:15:00 AM0.48''"
  by (simp add: clean_def scenario_B_def)

lemma finditer_scenario_B:
  "finditer DT_RE 0 '' 1/1/2025 12:00:00 AM0.52 1/1/2025 12:15:00 AM0.48'' = [(1, 21), (26, 46)]"
  by (simp add: finditer.simps re_defs char_defs)

lemma recovery_scenario_B:
  "parse_collapsed_text scenario_B =
     Inr [(At \<lparr>year = 2025, month = 1, day = 1, hour = 0, minute = 0, second = 0,
               tzinfo = Some HST\<rparr>, Finite (52 / 100)),
          (At \<lparr>year = 2025, month = 1, day = 1, hour = 0, minute = 15, second = 0,
               tzinfo = Some HST\<rparr>, Finite (48 / 100))]"
  by (simp add: parse_collapsed_text_def clean_scenario_B finditer_scenario_B)
     (simp add: upt_rec collapsed_row_def slice_def strip_def strptime_midnight
        strptime_quarter_past re_defs char_defs num_defs)

lemma read_ragged_comma:
  "plain_read_csv ragged_table (CHR '','') =
     Inr [(''a;b'' @ [CHR 0x09] @ ''c'',
           [''1;2'' @ [CHR 0x09] @ ''3'', ''1;2;3'' @ [CHR 0x09] @ ''4'' @ [CHR 0x09] @ ''5''])]"
  by (simp add: plain_read_csv_def ragged_table_def upt_rec)

lemma read_ragged_tab:
  "plain_read_csv ragged_table (CHR 0x09) =
     Inl (PandasError (''Expected fewer fields with separator '' @ [CHR 0x09]))"
  by (simp add: plain_read_csv_def ragged_table_def)

lemma read_ragged_semicolon:
  "plain_read_csv ragged_table (CHR '';'') =
     Inl (PandasError ''Expected fewer fields with separator ;'')"
  by (simp add: plain_read_csv_def ragged_table_def)

lemma strict_ragged:
  "parse_start_kwh_csv plain_pandas ragged_table =
     Inl (PandasError ''Expected fewer fields with separator ;'')"
  by (simp add: parse_start_kwh_csv_def seps_def plain_pandas_def read_ragged_comma
      read_ragged_tab read_ragged_semicolon)

lemma recovery_ragged: "parse_collapsed_text ragged_table = Inr []"
  by (simp add: parse_collapsed_text_def clean_def ragged_table_def finditer.simps re_defs char_defs)

lemma read_abc: "plain_read_csv ''abc'' sep = Inr [(''abc'', [])]" if "sep \<notin> set ''abc''"
  using that by (auto simp add: plain_read_csv_def upt_rec)

lemma strict_abc: "parse_start_kwh_csv plain_pandas ''abc'' = Inl (ColumnsValueError [''abc''])"
  by (simp add: strict_defs char_defs read_abc)

lemma recovery_abc: "parse_collapsed_text ''abc'' = Inr []"
  by (simp add: parse_collapsed_text_def clean_def finditer.simps re_defs char_defs)

lemma read_semicolon_table:
  "plain_read_csv semicolon_table (CHR '','') = Inr [(''Start;kWh'', [''1/1/2025 12:00:00 AM;0.52''])]"
  "plain_read_csv semicolon_table (CHR 0x09) = Inr [(''Start;kWh'', [''1/1/2025 12:00:00 AM;0.52''])]"
  "plain_read_csv semicolon_table (CHR '';'') =
     Inr [(''Start'', [''1/1/2025 12:00:00 AM'']), (''kWh'', [''0.52''])]"
  by (simp_all add: plain_read_csv_def semicolon_table_def upt_rec)



lemma strict_header_only: "parse_start_kwh_csv plain_pandas ''Start,kWh'' = Inr []"
  by (simp add: strict_defs char_defs plain_read_csv_def upt_rec)



lemma should_process_a_csv: "should_process (''a.csv'', File content)"
  by (simp add: should_process_def endswith_def char_defs)

lemma parse_abc: "parse_file plain_pandas ''abc'' = Inl (ColumnsValueError [''abc''])"
  by (simp add: parse_file_def strict_abc recovery_abc)

lemma parse_header_only: "parse_file plain_pandas ''Start,kWh'' = Inr []"
  by (simp add: parse_file_def strict_header_only)

lemmas loop_defs = sweep_def glob_star_def loop_body_def process_file_def write_to_influx_def
  on_exception_def move_def






section \<open>The delimiter loop\<close>

lemma delimiter_loop_accept:
  assumes "rd sep = Inr d" and "2 \<le> length d"
    and "\<forall>s\<in>set pre. \<forall>d'. rd s = Inr d' \<longrightarrow> length d' < 2"
  shows "\<exists>err. delimiter_loop rd (pre @ sep # post) (df, le, tried) = (Some d, err, tried @ pre @ [sep])"
  using assms(3)
proof (induction pre arbitrary: df le tried)
  case Nil
  then show ?case using assms(1,2) by simp
next
  case (Cons s pre)
  show ?case
  proof (cases "rd s")
    case (Inl e)
    with Cons.IH [of None "Some e" "tried @ [s]"] Cons.prems show ?thesis by simp
  next
    case (Inr d')
    with Cons.prems have "length d' < 2" by simp
    with Inr Cons.IH [of "Some d'" le "tried @ [s]"] Cons.prems show ?thesis by simp
  qed
qed

lemma delimiter_loop_reject:
  assumes "\<forall>s\<in>set ss. \<forall>d'. rd s = Inr d' \<longrightarrow> length d' < 2" and "ss \<noteq> []"
  shows "fst (delimiter_loop rd ss (df, le, tried)) =
           (case rd (last ss) of Inl e \<Rightarrow> None | Inr d \<Rightarrow> Some d) \<and>
         (\<forall>e. rd (last ss) = Inl e \<longrightarrow> fst (snd (delimiter_loop rd ss (df, le, tried))) = Some e)"
  using assms
proof (induction ss arbitrary: df le tried)
  case Nil
  then show ?case by simp
next
  case (Cons s ss)
  show ?case
  proof (cases "ss = []")
    case True
    with Cons.prems show ?thesis by (cases "rd s") auto
  next
    case False
    with Cons show ?thesis by (cases "rd s") auto
  qed
qed

lemma table_rows_narrow:
  assumes "length df < 2"
  shows "table_rows pd df = Inl (ColumnsValueError (map fst df))"
proof -
  from assms have "df = [] \<or> (\<exists>c. df = [c])"
    by (cases df) (auto simp: less_Suc_eq_0_disj numeral_2_eq_2 intro: list.exhaust)
  then show ?thesis by (auto simp: table_rows_def)
qed

section \<open>The loop body and the sweep\<close>

lemma names_delete: "fst ` set (AList.delete k al) = fst ` set al - {k}"
  by (induction al) auto

lemma process_file_incoming:
  "incoming (process_file ev base content w) =
     (if (parse_and_write_ok ev content \<and> move_ok ev Processed base) \<or> move_ok ev Failed base
      then AList.delete base (incoming w) else incoming w)"
  by (auto simp: process_file_def on_exception_def write_to_influx_def move_def
      parse_and_write_ok_def Let_def split: sum.splits option.splits)

lemma process_file_processed:
  "processed (process_file ev base content w) =
     (if parse_and_write_ok ev content \<and> move_ok ev Processed base
      then AList.update base content (processed w) else processed w)"
  by (auto simp: process_file_def on_exception_def write_to_influx_def move_def
      parse_and_write_ok_def Let_def split: sum.splits option.splits)

lemma process_file_failed:
  "failed (process_file ev base content w) =
     (if \<not> (parse_and_write_ok ev content \<and> move_ok ev Processed base) \<and> move_ok ev Failed base
      then AList.update base content (failed w) else failed w)"
  by (auto simp: process_file_def on_exception_def write_to_influx_def move_def
      parse_and_write_ok_def Let_def split: sum.splits option.splits)

lemmas process_file_dirs = process_file_incoming process_file_processed process_file_failed




lemma location_count_pos: "1 \<le> location_count w n \<longleftrightarrow> in_any w n"
  by (auto simp: location_count_def in_any_def)

lemma names_update: "fst ` set (AList.update k v al) = insert k (fst ` set al)"
  by (simp add: dom_update)

lemma process_file_in_any:
  "in_any w n \<Longrightarrow> in_any (process_file ev base content w) n"
  by (auto simp: in_any_def in_incoming_def in_processed_def in_failed_def process_file_dirs
      names_update names_delete)

lemma loop_body_in_any: "in_any w n \<Longrightarrow> in_any (loop_body ev w p) n"
  by (auto simp: loop_body_def process_file_in_any split: entry.splits)

lemma foldl_loop_body_in_any: "in_any w n \<Longrightarrow> in_any (foldl (loop_body ev) w ps) n"
  by (induction ps arbitrary: w) (auto simp: loop_body_in_any)

lemma step_in_any: "in_any w n \<Longrightarrow> in_any (step w e) n"
  by (cases e)
     (auto simp: sweep_def foldl_loop_body_in_any,
      auto simp: in_any_def in_incoming_def in_processed_def in_failed_def names_update)

lemma run_in_any: "in_any w n \<Longrightarrow> in_any (run evs w) n"
  unfolding run_def by (induction evs arbitrary: w) (auto simp: step_in_any)

lemma run_Cons: "run (e # evs) w = run evs (step w e)"
  by (simp add: run_def)

lemma dropped_in_any: "n \<in> set (dropped evs) \<Longrightarrow> in_any (run evs w) n"
proof (induction evs arbitrary: w)
  case Nil
  then show ?case by simp
next
  case (Cons e evs)
  show ?case
  proof (cases e)
    case (Drop m x)
    show ?thesis
    proof (cases "m = n")
      case True
      with Drop have "in_any (step w e) n"
        by (simp add: in_any_def in_incoming_def names_update)
      then show ?thesis by (simp add: run_Cons run_in_any)
    next
      case False
      with Drop Cons.prems have "n \<in> set (dropped evs)" by simp
      with Cons.IH show ?thesis by (simp add: run_Cons)
    qed
  next
    case (Sweep ev)
    with Cons.prems have "n \<in> set (dropped evs)" by simp
    with Cons.IH show ?thesis by (simp add: run_Cons)
  qed
qed

lemma placed_in_any: "n \<in> set (placed w evs) \<Longrightarrow> in_any (run evs w) n"
proof -
  assume "n \<in> set (placed w evs)"
  then consider "n \<in> set (map fst (incoming w))" | "n \<in> set (dropped evs)"
    by (auto simp: placed_def)
  then show ?thesis
  proof cases
    case 1
    then have "in_any w n" by (simp add: in_any_def in_incoming_def)
    then show ?thesis by (rule run_in_any)
  next
    case 2
    then show ?thesis by (rule dropped_in_any)
  qed
qed

lemma distinct_after_move:
  assumes "distinct (I @ P @ F)" and "base \<in> set I"
  shows "distinct (removeAll base I @ (P @ [base]) @ F)"
    and "distinct (removeAll base I @ P @ (F @ [base]))"
  using assms by (auto simp: distinct_removeAll)

lemma tidy_process_file:
  assumes "tidy w" and "in_incoming w base"
  shows "tidy (process_file ev base content w)"
proof -
  let ?I = "map fst (incoming w)" and ?P = "map fst (processed w)" and ?F = "map fst (failed w)"
  let ?w' = "process_file ev base content w"
  have d: "distinct (?I @ ?P @ ?F)"
    using assms(1) by (simp only: tidy_def)
  have b: "base \<in> set ?I"
    using assms(2) by (simp add: in_incoming_def)
  from d b have np: "base \<notin> set ?P" and nf: "base \<notin> set ?F"
    by auto
  have up: "map fst (AList.update base content (processed w)) = ?P @ [base]"
    using np by (simp add: update_keys)
  have uf: "map fst (AList.update base content (failed w)) = ?F @ [base]"
    using nf by (simp add: update_keys)
  consider (P) "parse_and_write_ok ev content \<and> move_ok ev Processed base"
    | (F) "\<not> (parse_and_write_ok ev content \<and> move_ok ev Processed base)" "move_ok ev Failed base"
    | (N) "\<not> (parse_and_write_ok ev content \<and> move_ok ev Processed base)" "\<not> move_ok ev Failed base"
    by blast
  then show ?thesis
  proof cases
    case P
    then have "map fst (incoming ?w') = removeAll base ?I"
        and "map fst (processed ?w') = ?P @ [base]" and "map fst (failed ?w') = ?F"
      by (auto simp add: process_file_dirs delete_keys up)
    with distinct_after_move(1) [OF d b] show ?thesis
      by (simp only: tidy_def)
  next
    case F
    then have "map fst (incoming ?w') = removeAll base ?I"
        and "map fst (processed ?w') = ?P" and "map fst (failed ?w') = ?F @ [base]"
      by (auto simp add: process_file_dirs delete_keys uf)
    with distinct_after_move(2) [OF d b] show ?thesis
      by (simp only: tidy_def)
  next
    case N
    then have "map fst (incoming ?w') = ?I"
        and "map fst (processed ?w') = ?P" and "map fst (failed ?w') = ?F"
      by (auto simp add: process_file_dirs)
    with d show ?thesis
      by (simp only: tidy_def)
  qed
qed

lemma incoming_names_process_file:
  "fst ` set (incoming w) - {base} \<subseteq> fst ` set (incoming (process_file ev base content w))"
  by (auto simp: process_file_dirs names_delete)

lemma tidy_foldl_loop_body:
  assumes "tidy w" and "distinct (map fst ps)" and "fst ` set ps \<subseteq> fst ` set (incoming w)"
  shows "tidy (foldl (loop_body ev) w ps)"
  using assms
proof (induction ps arbitrary: w)
  case Nil
  then show ?case by simp
next
  case (Cons p ps)
  let ?w1 = "loop_body ev w p"
  have "in_incoming w (fst p)"
    using Cons.prems(3) by (simp add: in_incoming_def)
  with Cons.prems(1) have t: "tidy ?w1"
    by (auto simp: loop_body_def intro: tidy_process_file split: entry.splits)
  have a: "fst ` set (incoming w) - {fst p} \<subseteq> fst ` set (incoming ?w1)"
    using incoming_names_process_file [of w "fst p"]
    by (auto simp: loop_body_def split: entry.splits)
  have "fst p \<notin> fst ` set ps"
    using Cons.prems(2) by simp
  moreover have "fst ` set ps \<subseteq> fst ` set (incoming w)"
    using Cons.prems(3) by simp
  ultimately have "fst ` set ps \<subseteq> fst ` set (incoming w) - {fst p}"
    by blast
  with a have "fst ` set ps \<subseteq> fst ` set (incoming ?w1)"
    by blast
  with Cons.IH [OF t] Cons.prems(2) show ?case by simp
qed

lemma tidy_sweep: "tidy w \<Longrightarrow> tidy (sweep ev w)"
  unfolding sweep_def
  by (rule tidy_foldl_loop_body)
     (auto simp: tidy_def glob_star_def distinct_map_filter)

lemma tidy_drop:
  assumes "tidy w" and "\<not> in_processed w n" and "\<not> in_failed w n"
  shows "tidy (w\<lparr>incoming := AList.update n e (incoming w)\<rparr>)"
  using assms
  by (auto simp: tidy_def in_processed_def in_failed_def update_keys)

lemma tidy_run: "tidy w \<Longrightarrow> fresh_drops w evs \<Longrightarrow> tidy (run evs w)"
proof (induction evs arbitrary: w)
  case Nil
  then show ?case by (simp add: run_def)
next
  case (Cons e evs)
  then have "tidy (step w e)"
    by (cases e) (auto simp: tidy_drop tidy_sweep)
  with Cons show ?case by (simp add: run_Cons)
qed

lemma tidy_location_count: "tidy w \<Longrightarrow> location_count w n \<le> 1"
  by (auto simp: tidy_def location_count_def in_incoming_def in_processed_def in_failed_def)

section \<open>Properties of the matcher\<close>



lemma plus_rests_suffix: "x \<in> set (plus_rests k s) \<Longrightarrow> \<exists>n. s = n @ x \<and> n \<noteq> []"
proof (induction s)
  case Nil
  then show ?case by simp
next
  case (Cons c s)
  then consider "x = s" | "x \<in> set (plus_rests k s)"
    by (auto split: if_splits)
  then show ?case
  proof cases
    case 1
    then have "c # s = [c] @ x \<and> [c] \<noteq> []" by simp
    then show ?thesis by blast
  next
    case 2
    with Cons.IH obtain n where "s = n @ x" by blast
    then have "c # s = (c # n) @ x \<and> c # n \<noteq> []" by simp
    then show ?thesis by blast
  qed
qed

lemma rmatch_suffix: "x \<in> set (rmatch r s) \<Longrightarrow> \<exists>n. s = n @ x"
proof (induction r arbitrary: s x)
  case (Cat a b)
  then obtain y where y: "y \<in> set (rmatch a s)" and x: "x \<in> set (rmatch b y)"
    by auto
  from Cat.IH(1) [OF y] Cat.IH(2) [OF x] show ?case by auto
next
  case (Plus k)
  then show ?case using plus_rests_suffix by fastforce
qed (auto split: list.splits if_splits)

lemma rmatch_length: "x \<in> set (rmatch r s) \<Longrightarrow> length x \<le> length s"
  using rmatch_suffix by fastforce











lemma num_match_empty: "re_match NUM_RE [] = None"
  by (simp add: NUM_RE_def re_match_def)


lemma num_match_digit: "is_digit c \<Longrightarrow> re_match NUM_RE (c # u) \<noteq> None"
  by (auto simp: NUM_RE_def re_match_def is_digit_def split: list.splits)

lemma num_match_sign:
  "\<not> list_ex is_digit u \<Longrightarrow> re_match NUM_RE (c # u) = None" if "\<not> is_digit c"
  using that by (cases u) (auto simp: NUM_RE_def re_match_def)

section \<open>The fallback parser as a pass over the spans\<close>

lemma search_number_iff: "re_search NUM_RE s \<noteq> None \<longleftrightarrow> has_number s"
proof (induction s)
  case Nil
  then show ?case by (simp add: has_number_def num_match_empty)
next
  case (Cons c s)
  show ?case
  proof (cases "is_digit c")
    case True
    with num_match_digit [OF True, of s] show ?thesis
      by (auto simp: has_number_def)
  next
    case False
    show ?thesis
    proof (cases "has_number s")
      case True
      with Cons show ?thesis by (auto simp: has_number_def split: option.splits)
    next
      case False
      with num_match_sign [OF \<open>\<not> is_digit c\<close>, of s] Cons \<open>\<not> is_digit c\<close> show ?thesis
        by (simp add: has_number_def)
    qed
  qed
qed










lemma span_row_error:
  "(\<exists>e. span_row p = Inl e) \<longleftrightarrow> has_number (snd p) \<and> \<not> strptime_ok (fst p)"
  using search_number_iff [of "snd p"]
  by (auto simp: span_row_def strptime_ok_def split: option.splits sum.splits)



lemma spans_loop_raises:
  assumes "\<exists>p\<in>set ps. has_number (snd p) \<and> \<not> strptime_ok (fst p)"
  shows "\<exists>e. spans_loop ps rows = Inl e"
  using assms
proof (induction ps arbitrary: rows)
  case Nil
  then show ?case by simp
next
  case (Cons p ps)
  show ?case
  proof (cases "span_row p")
    case (Inl e)
    then show ?thesis by simp
  next
    case (Inr r)
    then have "\<not> (has_number (snd p) \<and> \<not> strptime_ok (fst p))"
      using span_row_error [of p] by auto
    with Cons.prems have "\<exists>p\<in>set ps. has_number (snd p) \<and> \<not> strptime_ok (fst p)"
      by auto
    with Cons.IH Inr show ?thesis by (auto split: option.splits)
  qed
qed

section \<open>Column conversions\<close>







section \<open>Digit runs and the fields of a Sample\<close>























section \<open>Claims about the CSV parser\<close>



section \<open>Claims about the delimiter loop\<close>

text \<open>
  C7.  The separators are read in the fixed order comma, tab, semicolon, and the first
  one whose table has at least two columns is accepted: the loop stops there, having
  read the separators up to it and no other, and the parser goes on with that table.
\<close>

theorem delimiter_priority_order:
  assumes "seps = pre @ sep # post"
    and "read_csv pd content sep = Inr d" and "2 \<le> length d"
    and "\<forall>s\<in>set pre. \<forall>d'. read_csv pd content s = Inr d' \<longrightarrow> length d' < 2"
  shows "seps = [CHR '','', CHR 0x09, CHR '';''] \<and>
         fst (delimiter_loop (read_csv pd content) seps (None, None, [])) = Some d \<and>
         snd (snd (delimiter_loop (read_csv pd content) seps (None, None, []))) = pre @ [sep] \<and>
         parse_start_kwh_csv pd content = table_rows pd (normalize_columns d)"
proof -
  from delimiter_loop_accept [OF assms(2,3,4), of post None None "[]"]
  obtain err where
    "delimiter_loop (read_csv pd content) (pre @ sep # post) (None, None, []) =
       (Some d, err, pre @ [sep])"
    by auto
  with assms(1) have "delimiter_loop (read_csv pd content) seps (None, None, []) =
       (Some d, err, pre @ [sep])"
    by simp
  then show ?thesis by (simp add: parse_start_kwh_csv_def seps_def)
qed

theorem delimiter_priority_order_witness:
  "seps = [CHR '','', CHR 0x09] @ CHR '';'' # [] \<and>
   snd (snd (delimiter_loop (read_csv plain_pandas semicolon_table) seps (None, None, []))) =
     [CHR '','', CHR 0x09, CHR '';''] \<and>
   parse_start_kwh_csv plain_pandas semicolon_table =
     table_rows plain_pandas [(''start'', [''1/1/2025 12:00:00 AM'']), (''kwh'', [''0.52''])]"
proof -
  have s: "seps = [CHR '','', CHR 0x09] @ CHR '';'' # []"
    by (simp add: seps_def)
  have n: "normalize_columns [(''Start'', [''1/1/2025 12:00:00 AM'']), (''kWh'', [''0.52''])] =
      [(''start'', [''1/1/2025 12:00:00 AM'']), (''kwh'', [''0.52''])]"
    by (simp add: normalize_columns_def strip_def char_defs)
  show ?thesis
    using delimiter_priority_order [OF s, of plain_pandas semicolon_table
        "[(''Start'', [''1/1/2025 12:00:00 AM'']), (''kWh'', [''0.52''])]"] s n
    by (simp add: plain_pandas_def read_semicolon_table)
qed

text \<open>
  C10, as stated, fails: on \<open>ragged_table\<close> the read with a comma returns a table of
  one column, the reads with a tab and with a semicolon raise, and the parser raises the
  error of the semicolon read; the table read with the comma is not kept and the column
  check is never reached.
\<close>

theorem kept_table_counterexample:
  "read_csv plain_pandas ragged_table (CHR '','') =
     Inr [(''a;b'' @ [CHR 0x09] @ ''c'',
           [''1;2'' @ [CHR 0x09] @ ''3'', ''1;2;3'' @ [CHR 0x09] @ ''4'' @ [CHR 0x09] @ ''5''])] \<and>
   parse_start_kwh_csv plain_pandas ragged_table =
     Inl (PandasError ''Expected fewer fields with separator ;'') \<and>
   parse_start_kwh_csv plain_pandas ragged_table \<noteq>
     Inl (ColumnsValueError [''a;b'' @ [CHR 0x09] @ ''c''])"
  by (simp add: strict_ragged) (simp add: plain_pandas_def read_ragged_comma)

text \<open>
  C10, amended.  When no separator yields two columns, the last attempt alone decides:
  if the read with the semicolon raises, the parser raises that error (the last
  attempt's, whatever the earlier reads returned); if it returns a table, that table is
  kept and the parser fails at the column check, with the normalised names of its
  columns.
\<close>

theorem last_attempt_decides:
  assumes "\<forall>s\<in>set seps. \<forall>d. read_csv pd content s = Inr d \<longrightarrow> length d < 2"
  shows "(read_csv pd content (CHR '';'') = Inl e \<longrightarrow> parse_start_kwh_csv pd content = Inl e) \<and>
         (read_csv pd content (CHR '';'') = Inr d \<longrightarrow>
            parse_start_kwh_csv pd content =
              Inl (ColumnsValueError (map fst (normalize_columns d))))"
proof -
  have l: "last seps = CHR '';''" and ne: "seps \<noteq> []"
    by (simp_all add: seps_def)
  note r = delimiter_loop_reject [OF assms ne, of None None "[]", unfolded l]
  show ?thesis
  proof (intro conjI impI)
    assume e: "read_csv pd content (CHR '';'') = Inl e"
    with r show "parse_start_kwh_csv pd content = Inl e"
      by (cases "delimiter_loop (read_csv pd content) seps (None, None, [])")
         (auto simp: parse_start_kwh_csv_def)
  next
    assume d: "read_csv pd content (CHR '';'') = Inr d"
    with assms have "length d < 2" by (simp add: seps_def)
    then have "length (normalize_columns d) < 2" by (simp add: normalize_columns_def)
    from table_rows_narrow [OF this] d r
    show "parse_start_kwh_csv pd content = Inl (ColumnsValueError (map fst (normalize_columns d)))"
      by (cases "delimiter_loop (read_csv pd content) seps (None, None, [])")
         (auto simp: parse_start_kwh_csv_def)
  qed
qed

theorem last_attempt_decides_witness:
  "parse_start_kwh_csv plain_pandas ragged_table =
     Inl (PandasError ''Expected fewer fields with separator ;'') \<and>
   parse_start_kwh_csv plain_pandas ''abc'' = Inl (ColumnsValueError [''abc''])"
proof -
  have a: "\<forall>s\<in>set seps. \<forall>d. read_csv plain_pandas ragged_table s = Inr d \<longrightarrow> length d < 2"
    by (auto simp: seps_def plain_pandas_def read_ragged_comma read_ragged_tab
        read_ragged_semicolon)
  have b: "\<forall>s\<in>set seps. \<forall>d. read_csv plain_pandas ''abc'' s = Inr d \<longrightarrow> length d < 2"
    by (auto simp: seps_def plain_pandas_def read_abc)
  have n: "normalize_columns [(''abc'', [])] = [(''abc'', []::string list)]"
    by (simp add: normalize_columns_def strip_def char_defs)
  show ?thesis
    using last_attempt_decides [OF a, of "PandasError ''Expected fewer fields with separator ;''"]
      last_attempt_decides [OF b, of _ "[(''abc'', [])]"] n
    by (simp add: plain_pandas_def read_ragged_semicolon read_abc)
qed

section \<open>Claims about the fallback parser\<close>




section \<open>Claims about the Samples of both parsers\<close>




section \<open>Claims about the scenarios\<close>

text \<open>
  C9.  The CSV parser on the table of Scenario A and the fallback parser on the collapsed
  text of Scenario B return the same batch: the Samples (2025-01-01 00:00:00 HST, 0.52)
  and (2025-01-01 00:15:00 HST, 0.48), in that order.
\<close>

theorem scenarios_A_B_identical:
  "parse_start_kwh_csv plain_pandas scenario_A =
     Inr [(At \<lparr>year = 2025, month = 1, day = 1, hour = 0, minute = 0, second = 0,
               tzinfo = Some HST\<rparr>, Finite (52 / 100)),
          (At \<lparr>year = 2025, month = 1, day = 1, hour = 0, minute = 15, second = 0,
               tzinfo = Some HST\<rparr>, Finite (48 / 100))] \<and>
   parse_collapsed_text scenario_B = parse_start_kwh_csv plain_pandas scenario_A"
  by (simp add: strict_scenario_A recovery_scenario_B)

section \<open>Claims about \<open>parse_file\<close>\<close>



section \<open>Claims about the watcher loop\<close>

text \<open>
  C3, as stated, fails.  Files are known by their names.  A file \<open>a.csv\<close> that cannot be
  parsed is moved to the failed directory; when the producer then places a good file of
  the same name in the incoming directory, the next sweep moves it to the processed
  directory, and the name is present in two of the three directories.
\<close>

theorem name_reuse_counterexample:
  "''a.csv'' \<in> set (placed empty_world
      [Drop ''a.csv'' (File ''abc''), Sweep all_fine_env,
       Drop ''a.csv'' (File ''Start,kWh''), Sweep all_fine_env]) \<and>
   location_count (run
      [Drop ''a.csv'' (File ''abc''), Sweep all_fine_env,
       Drop ''a.csv'' (File ''Start,kWh''), Sweep all_fine_env] empty_world) ''a.csv'' = 2"
  by (simp add: placed_def run_def empty_world_def all_fine_env_def loop_defs
      should_process_a_csv parse_abc parse_header_only location_count_def in_incoming_def
      in_processed_def in_failed_def)

text \<open>
  C3, amended.  After any sequence of sweeps and drops, every name that was ever placed
  in the incoming directory is present in at least one of the three directories; and it
  is present in exactly one of them provided that at the start no name was in two
  places and that no file was dropped under a name which the processed or the failed
  directory held at that moment.
\<close>

theorem lifecycle_invariant:
  "(n \<in> set (placed w evs) \<longrightarrow> 1 \<le> location_count (run evs w) n) \<and>
   (tidy w \<and> fresh_drops w evs \<and> n \<in> set (placed w evs) \<longrightarrow>
      location_count (run evs w) n = 1)"
proof -
  have a: "1 \<le> location_count (run evs w) n" if "n \<in> set (placed w evs)"
    unfolding location_count_pos using that by (rule placed_in_any)
  have b: "location_count (run evs w) n \<le> 1" if "tidy w" "fresh_drops w evs"
    using tidy_run [OF that] by (rule tidy_location_count)
  from a b show ?thesis by (auto simp: le_antisym)
qed

theorem lifecycle_invariant_witness:
  "tidy empty_world \<and>
   fresh_drops empty_world
     [Drop ''a.csv'' (File ''abc''), Sweep all_fine_env,
      Drop ''b.csv'' (File ''Start,kWh''), Sweep all_fine_env] \<and>
   ''a.csv'' \<in> set (placed empty_world
     [Drop ''a.csv'' (File ''abc''), Sweep all_fine_env,
      Drop ''b.csv'' (File ''Start,kWh''), Sweep all_fine_env]) \<and>
   location_count (run
     [Drop ''a.csv'' (File ''abc''), Sweep all_fine_env,
      Drop ''b.csv'' (File ''Start,kWh''), Sweep all_fine_env] empty_world) ''a.csv'' = 1"
proof -
  let ?evs = "[Drop ''a.csv'' (File ''abc''), Sweep all_fine_env,
      Drop ''b.csv'' (File ''Start,kWh''), Sweep all_fine_env]"
  have t: "tidy empty_world"
    by (simp add: tidy_def empty_world_def)
  have f: "fresh_drops empty_world ?evs"
    by (simp add: empty_world_def all_fine_env_def loop_defs should_process_a_csv parse_abc
        in_processed_def in_failed_def)
  have p: "''a.csv'' \<in> set (placed empty_world ?evs)"
    by (simp add: placed_def)
  from lifecycle_invariant [of "''a.csv''" empty_world ?evs] t f p show ?thesis
    by simp
qed




text \<open>
  C5.  A file whose parse returns no Sample is a success: \<open>write_to_influx\<close> returns 0
  without calling the client, and, the move into the processed directory going through,
  the file is there and no longer in the incoming directory, the failed directory is
  untouched, and the line printed reports 0 points.
\<close>

theorem zero_samples_are_success:
  assumes "parse_file (lib ev) content = Inr []" and "move_ok ev Processed base"
  shows "write_to_influx ev [] w = (Inr 0, w) \<and>
         sink_calls (process_file ev base content w) = sink_calls w \<and>
         printed (process_file ev base content w) = printed w @ [Imported 0 base] \<and>
         map_of (processed (process_file ev base content w)) base = Some content \<and>
         base \<notin> fst ` set (incoming (process_file ev base content w)) \<and>
         failed (process_file ev base content w) = failed w"
  using assms
  by (simp add: process_file_def write_to_influx_def move_def update_conv' delete_notin_dom)

theorem zero_samples_are_success_witness:
  "parse_file (lib sink_down_env) ''Start,kWh'' = Inr [] \<and>
   move_ok sink_down_env Processed ''empty.csv'' \<and>
   sink_calls (process_file sink_down_env ''empty.csv'' ''Start,kWh''
     (empty_world\<lparr>incoming := [(''empty.csv'', File ''Start,kWh'')]\<rparr>)) = [] \<and>
   printed (process_file sink_down_env ''empty.csv'' ''Start,kWh''
     (empty_world\<lparr>incoming := [(''empty.csv'', File ''Start,kWh'')]\<rparr>)) =
     [Imported 0 ''empty.csv'']"
proof -
  have p: "parse_file (lib sink_down_env) ''Start,kWh'' = Inr []"
    by (simp add: sink_down_env_def parse_file_def strict_header_only)
  have m: "move_ok sink_down_env Processed ''empty.csv''"
    by (simp add: sink_down_env_def)
  show ?thesis
    using zero_samples_are_success [OF p m,
        of "empty_world\<lparr>incoming := [(''empty.csv'', File ''Start,kWh'')]\<rparr>"] p m
    by (simp add: empty_world_def)
qed

end
